theory Spec2Isabelle
  imports Complex_Main
begin

section \<open>Bros and Bills: the trip data model of \<^verbatim>\<open>src/app/page.tsx\<close>\<close>

text \<open>
  The page keeps one trip in nine React state variables and derives its totals from them
  on every render. JavaScript numbers are modelled as exact rationals (\<^typ>\<open>rat\<close>):
  the rounding of IEEE doubles and the values NaN and Infinity are outside the model.
  NaN only appears as the result of \<^verbatim>\<open>parseInt\<close> / \<^verbatim>\<open>parseFloat\<close>, where it is
  modelled explicitly and replaced by the handlers before it is stored.
\<close>

subsection \<open>Interfaces\<close>

text \<open>
  \<^verbatim>\<open>interface InfoField { id: string; label: string; value: string }\<close>;
  \<^verbatim>\<open>BasicInfoField\<close> has the same three fields and shares the record.
\<close>

record InfoField =
  f_id :: string
  f_label :: string
  f_value :: string

text \<open>
  \<^verbatim>\<open>interface ExpenseItem { id; name; price; isPerPerson; infoFields }\<close>. The migration
  builds its result with \<^verbatim>\<open>{ ...expense, infoFields: ... }\<close>, so an expense that came with
  the legacy properties \<^verbatim>\<open>link\<close> and \<^verbatim>\<open>notes\<close> keeps them in memory; they are the
  two optional fields at the end.
\<close>

record ExpenseItem =
  e_id :: string
  e_name :: string
  e_price :: rat
  e_isPerPerson :: bool
  e_infoFields :: "InfoField list"
  e_link :: "string option"
  e_notes :: "string option"

text \<open>\<^verbatim>\<open>interface TripData\<close>; also the nine \<^verbatim>\<open>useState\<close> variables of \<^verbatim>\<open>Home\<close>.\<close>

record TripData =
  tripName :: string
  persons :: rat
  budgetPerPerson :: rat
  hasAccommodation :: bool
  accommodationLink :: string
  accommodationPrice :: rat
  accommodationNights :: rat
  basicInfo :: "InfoField list"
  expenses :: "ExpenseItem list"

subsection \<open>Derived totals (lines 304-314)\<close>

definition getExpenseTotal :: "TripData \<Rightarrow> ExpenseItem \<Rightarrow> rat" where
  "getExpenseTotal st expense =
     (if e_isPerPerson expense then e_price expense * persons st else e_price expense)"

text \<open>\<^verbatim>\<open>expenses.reduce((sum, expense) => sum + getExpenseTotal(expense), 0)\<close>\<close>

definition expensesCost :: "TripData \<Rightarrow> rat" where
  "expensesCost st = foldl (\<lambda>sum expense. sum + getExpenseTotal st expense) 0 (expenses st)"

definition accommodationCost :: "TripData \<Rightarrow> rat" where
  "accommodationCost st = (if hasAccommodation st then accommodationPrice st else 0)"

definition totalCost :: "TripData \<Rightarrow> rat" where
  "totalCost st = expensesCost st + accommodationCost st"

definition costPerPerson :: "TripData \<Rightarrow> rat" where
  "costPerPerson st = (if persons st > 0 then totalCost st / persons st else 0)"

definition pricePerNight :: "TripData \<Rightarrow> rat" where
  "pricePerNight st =
     (if accommodationNights st > 0 then accommodationPrice st / accommodationNights st else 0)"

definition totalBudget :: "TripData \<Rightarrow> rat" where
  "totalBudget st = budgetPerPerson st * persons st"

definition remaining :: "TripData \<Rightarrow> rat" where
  "remaining st = totalBudget st - totalCost st"

subsection \<open>Parsed JSON\<close>

text \<open>
  The page reads JSON in two places: \<^verbatim>\<open>getInitialData\<close> (the item of localStorage) and
  \<^verbatim>\<open>importData\<close> (the selected file). Both read the value of \<^verbatim>\<open>JSON.parse\<close> through
  the interface \<^verbatim>\<open>TripData\<close>, each expense through
  \<^verbatim>\<open>ExpenseItem & { link?: string; notes?: string }\<close>. The model follows these types:
  a property is absent (\<open>None\<close>) or has the declared type. Every property of the trip
  may be absent; of an expense, \<^verbatim>\<open>infoFields\<close>, \<^verbatim>\<open>link\<close> and \<^verbatim>\<open>notes\<close> may be.
  \<^verbatim>\<open>JSON.parse\<close> itself is a built-in: its outcome on the text is the input of the model,
  \<open>SyntaxError\<close> when it throws.
\<close>

record ExpenseJson =
  j_id :: string
  j_name :: string
  j_price :: rat
  j_isPerPerson :: bool
  j_infoFields :: "InfoField list option"
  j_link :: "string option"
  j_notes :: "string option"

record TripJson =
  d_tripName :: "string option"
  d_persons :: "rat option"
  d_budgetPerPerson :: "rat option"
  d_hasAccommodation :: "bool option"
  d_accommodationLink :: "string option"
  d_accommodationPrice :: "rat option"
  d_accommodationNights :: "rat option"
  d_basicInfo :: "InfoField list option"
  d_expenses :: "ExpenseJson list option"

datatype parse_result = SyntaxError | Parsed TripJson

datatype toast = ToastSuccess string | ToastError string

text \<open>
  JavaScript's \<^verbatim>\<open>a || b\<close> is \<^verbatim>\<open>a\<close> when \<^verbatim>\<open>a\<close> is truthy and \<^verbatim>\<open>b\<close> otherwise.
  \<^verbatim>\<open>undefined\<close> (an absent property) is falsy; so are the empty string, the
  number 0 and \<^verbatim>\<open>false\<close>; every array is truthy, the empty one too.
\<close>

definition truthy_string :: "string \<Rightarrow> bool" where
  "truthy_string s = (s \<noteq> [])"

definition truthy_number :: "rat \<Rightarrow> bool" where
  "truthy_number x = (x \<noteq> 0)"

definition truthy_boolean :: "bool \<Rightarrow> bool" where
  "truthy_boolean b = b"

definition truthy_array :: "'a list \<Rightarrow> bool" where
  "truthy_array xs = True"

definition js_or :: "('a \<Rightarrow> bool) \<Rightarrow> 'a option \<Rightarrow> 'a \<Rightarrow> 'a" where
  "js_or truthy a b = (case a of None \<Rightarrow> b | Some x \<Rightarrow> if truthy x then x else b)"

subsection \<open>Migration of the legacy fields (lines 147-154 and 375-381)\<close>

text \<open>
  \<^verbatim>\<open>crypto.randomUUID()\<close> is modelled by a generator \<open>randomUUID :: nat \<Rightarrow> string\<close>
  and a counter: the \<open>n\<close>-th call of a session returns \<open>randomUUID n\<close>. Every function
  that creates ids takes the counter and returns it advanced.

  \<^verbatim>\<open>...(expense.link ? [{ id: crypto.randomUUID(), label: "Link", value: expense.link }] : [])\<close>
\<close>

definition legacyField ::
  "(nat \<Rightarrow> string) \<Rightarrow> nat \<Rightarrow> string \<Rightarrow> string option \<Rightarrow> InfoField list \<times> nat" where
  "legacyField randomUUID n lbl v =
     (case v of
        None \<Rightarrow> ([], n)
      | Some s \<Rightarrow>
          if truthy_string s
          then ([\<lparr>f_id = randomUUID n, f_label = lbl, f_value = s\<rparr>], Suc n)
          else ([], n))"

text \<open>\<^verbatim>\<open>{ ...expense, infoFields: fs }\<close>\<close>

definition withInfoFields :: "ExpenseJson \<Rightarrow> InfoField list \<Rightarrow> ExpenseItem" where
  "withInfoFields expense fs =
     \<lparr>e_id = j_id expense, e_name = j_name expense, e_price = j_price expense,
      e_isPerPerson = j_isPerPerson expense, e_infoFields = fs,
      e_link = j_link expense, e_notes = j_notes expense\<rparr>"

text \<open>
  The arrow function both \<^verbatim>\<open>map\<close> calls apply:
  \<^verbatim>\<open>infoFields: expense.infoFields || [ ...(link ? ...), ...(notes ? ...) ]\<close>.
  An array is truthy, so the right operand is evaluated only when \<^verbatim>\<open>infoFields\<close> is absent.
\<close>

definition migrateExpense ::
  "(nat \<Rightarrow> string) \<Rightarrow> nat \<Rightarrow> ExpenseJson \<Rightarrow> ExpenseItem \<times> nat" where
  "migrateExpense randomUUID n expense =
     (case j_infoFields expense of
        Some fs \<Rightarrow> (withInfoFields expense fs, n)
      | None \<Rightarrow>
          (let (links, n1) = legacyField randomUUID n ''Link'' (j_link expense);
               (notes, n2) = legacyField randomUUID n1 ''Notes'' (j_notes expense)
           in (withInfoFields expense (links @ notes), n2)))"

fun migrateExpenses ::
  "(nat \<Rightarrow> string) \<Rightarrow> nat \<Rightarrow> ExpenseJson list \<Rightarrow> ExpenseItem list \<times> nat" where
  "migrateExpenses randomUUID n [] = ([], n)"
| "migrateExpenses randomUUID n (expense # rest) =
     (let (e, n1) = migrateExpense randomUUID n expense;
          (es, n2) = migrateExpenses randomUUID n1 rest
      in (e # es, n2))"

subsection \<open>Loading (lines 125-162 and 182-194)\<close>

definition defaultData :: TripData where
  "defaultData =
     \<lparr>tripName = [], persons = 2, budgetPerPerson = 0, hasAccommodation = False,
      accommodationLink = [], accommodationPrice = 0, accommodationNights = 1,
      basicInfo = [], expenses = []\<rparr>"

text \<open>\<^verbatim>\<open>{ ...defaultData, ...data }\<close>, with the expenses \<^verbatim>\<open>data\<close> holds after the migration.\<close>

definition spreadOver :: "TripData \<Rightarrow> TripJson \<Rightarrow> ExpenseItem list option \<Rightarrow> TripData" where
  "spreadOver dflt data es =
     \<lparr>tripName = (case d_tripName data of Some v \<Rightarrow> v | None \<Rightarrow> tripName dflt),
      persons = (case d_persons data of Some v \<Rightarrow> v | None \<Rightarrow> persons dflt),
      budgetPerPerson =
        (case d_budgetPerPerson data of Some v \<Rightarrow> v | None \<Rightarrow> budgetPerPerson dflt),
      hasAccommodation =
        (case d_hasAccommodation data of Some v \<Rightarrow> v | None \<Rightarrow> hasAccommodation dflt),
      accommodationLink =
        (case d_accommodationLink data of Some v \<Rightarrow> v | None \<Rightarrow> accommodationLink dflt),
      accommodationPrice =
        (case d_accommodationPrice data of Some v \<Rightarrow> v | None \<Rightarrow> accommodationPrice dflt),
      accommodationNights =
        (case d_accommodationNights data of Some v \<Rightarrow> v | None \<Rightarrow> accommodationNights dflt),
      basicInfo = (case d_basicInfo data of Some v \<Rightarrow> v | None \<Rightarrow> basicInfo dflt),
      expenses = (case es of Some v \<Rightarrow> v | None \<Rightarrow> expenses dflt)\<rparr>"

text \<open>
  \<open>hasWindow\<close> is \<^verbatim>\<open>typeof window !== "undefined"\<close>. \<open>saved\<close> is what the page gets
  from \<^verbatim>\<open>localStorage.getItem("bros-and-bills")\<close>: \<open>None\<close> when the test
  \<^verbatim>\<open>if (saved)\<close> fails (no item, or the empty string), otherwise the outcome of
  \<^verbatim>\<open>JSON.parse(saved)\<close>. The \<^verbatim>\<open>catch\<close> returns the defaults.
\<close>

definition getInitialData ::
  "(nat \<Rightarrow> string) \<Rightarrow> nat \<Rightarrow> bool \<Rightarrow> parse_result option \<Rightarrow> TripData \<times> nat" where
  "getInitialData randomUUID n hasWindow saved =
     (if \<not> hasWindow then (defaultData, n)
      else case saved of
        None \<Rightarrow> (defaultData, n)
      | Some SyntaxError \<Rightarrow> (defaultData, n)
      | Some (Parsed data) \<Rightarrow>
          (case d_expenses data of
             Some es \<Rightarrow>
               (let (migrated, n1) = migrateExpenses randomUUID n es
                in (spreadOver defaultData data (Some migrated), n1))
           | None \<Rightarrow> (spreadOver defaultData data None, n)))"

text \<open>
  The effect that runs on mount: it calls the nine setters with the fields of
  \<^verbatim>\<open>getInitialData()\<close>, three of them through \<^verbatim>\<open>||\<close>. An effect runs in the browser
  only, so the window exists there.
\<close>

definition loadEffect ::
  "(nat \<Rightarrow> string) \<Rightarrow> nat \<Rightarrow> parse_result option \<Rightarrow> TripData \<times> nat" where
  "loadEffect randomUUID n saved =
     (let (data, n1) = getInitialData randomUUID n True saved
      in (\<lparr>tripName = tripName data,
           persons = persons data,
           budgetPerPerson = budgetPerPerson data,
           hasAccommodation = hasAccommodation data,
           accommodationLink = accommodationLink data,
           accommodationPrice = js_or truthy_number (Some (accommodationPrice data)) 0,
           accommodationNights = js_or truthy_number (Some (accommodationNights data)) 1,
           basicInfo = js_or truthy_array (Some (basicInfo data)) [],
           expenses = expenses data\<rparr>, n1))"

subsection \<open>Export and import (lines 346-391)\<close>

text \<open>
  \<^verbatim>\<open>exportData\<close> writes \<^verbatim>\<open>JSON.stringify(data, null, 2)\<close> for the object of the nine
  state variables and shows a toast. \<open>jsonOf\<close> is what \<^verbatim>\<open>JSON.parse\<close> reads back from
  that text: every property of the object is present, and \<^verbatim>\<open>link\<close> and \<^verbatim>\<open>notes\<close> are
  present where the expense has them. The name of the download is not modelled.
\<close>

definition expenseJsonOf :: "ExpenseItem \<Rightarrow> ExpenseJson" where
  "expenseJsonOf e =
     \<lparr>j_id = e_id e, j_name = e_name e, j_price = e_price e,
      j_isPerPerson = e_isPerPerson e, j_infoFields = Some (e_infoFields e),
      j_link = e_link e, j_notes = e_notes e\<rparr>"

definition jsonOf :: "TripData \<Rightarrow> TripJson" where
  "jsonOf st =
     \<lparr>d_tripName = Some (tripName st),
      d_persons = Some (persons st),
      d_budgetPerPerson = Some (budgetPerPerson st),
      d_hasAccommodation = Some (hasAccommodation st),
      d_accommodationLink = Some (accommodationLink st),
      d_accommodationPrice = Some (accommodationPrice st),
      d_accommodationNights = Some (accommodationNights st),
      d_basicInfo = Some (basicInfo st),
      d_expenses = Some (map expenseJsonOf (expenses st))\<rparr>"

definition exportData :: "TripData \<Rightarrow> parse_result \<times> toast" where
  "exportData st = (Parsed (jsonOf st), ToastSuccess ''Trip exported successfully'')"

text \<open>
  \<^verbatim>\<open>reader.onload\<close>: the \<^verbatim>\<open>try\<close> block parses first and then calls seven setters in
  the order of the source; \<^verbatim>\<open>setAccommodationPrice\<close> and \<^verbatim>\<open>setAccommodationNights\<close>
  are not among them. The \<^verbatim>\<open>catch\<close> shows the error toast.
\<close>

definition reader_onload ::
  "(nat \<Rightarrow> string) \<Rightarrow> nat \<Rightarrow> parse_result \<Rightarrow> TripData \<Rightarrow> TripData \<times> nat \<times> toast" where
  "reader_onload randomUUID n result st =
     (case result of
        SyntaxError \<Rightarrow> (st, n, ToastError ''Failed to import file'')
      | Parsed data \<Rightarrow>
          (let st1 = st\<lparr>tripName := js_or truthy_string (d_tripName data) []\<rparr>;
               st2 = st1\<lparr>persons := js_or truthy_number (d_persons data) 2\<rparr>;
               st3 = st2\<lparr>budgetPerPerson := js_or truthy_number (d_budgetPerPerson data) 0\<rparr>;
               st4 = st3\<lparr>hasAccommodation :=
                       js_or truthy_boolean (d_hasAccommodation data) False\<rparr>;
               st5 = st4\<lparr>accommodationLink :=
                       js_or truthy_string (d_accommodationLink data) []\<rparr>;
               st6 = st5\<lparr>basicInfo := js_or truthy_array (d_basicInfo data) []\<rparr>;
               (migratedExpenses, n1) =
                 migrateExpenses randomUUID n (js_or truthy_array (d_expenses data) [])
           in (st6\<lparr>expenses := migratedExpenses\<rparr>, n1,
               ToastSuccess ''Trip imported successfully'')))"


subsection \<open>Mutations (lines 219-302)\<close>

















subsection \<open>Input handlers of the form (lines 516-746)\<close>





subsection \<open>The clipboard summary (lines 393-449)\<close>

text \<open>
  The text is a list of bytes, UTF-8 for the characters outside ASCII. Two built-ins
  format the numbers and are parameters of the model: \<open>toFixed2\<close> is
  \<^verbatim>\<open>Number.prototype.toFixed(2)\<close> and \<open>toStr\<close> is the conversion of a number inside a
  template literal.
\<close>

definition newline :: string where
  "newline = [CHR 0x0A]"

definition bullet :: string where
  "bullet = [CHR 0xE2, CHR 0x80, CHR 0xA2]"

definition times_sign :: string where
  "times_sign = [CHR 0xC3, CHR 0x97]"

definition emoji_island :: string where
  "emoji_island = [CHR 0xF0, CHR 0x9F, CHR 0x8F, CHR 0x9D, CHR 0xEF, CHR 0xB8, CHR 0x8F]"

definition emoji_people :: string where
  "emoji_people = [CHR 0xF0, CHR 0x9F, CHR 0x91, CHR 0xA5]"

definition emoji_clipboard :: string where
  "emoji_clipboard = [CHR 0xF0, CHR 0x9F, CHR 0x93, CHR 0x8B]"

definition emoji_hotel :: string where
  "emoji_hotel = [CHR 0xF0, CHR 0x9F, CHR 0x8F, CHR 0xA8]"

definition emoji_card :: string where
  "emoji_card = [CHR 0xF0, CHR 0x9F, CHR 0x92, CHR 0xB3]"

definition emoji_money :: string where
  "emoji_money = [CHR 0xF0, CHR 0x9F, CHR 0x92, CHR 0xB0]"

definition emoji_person :: string where
  "emoji_person = [CHR 0xF0, CHR 0x9F, CHR 0x91, CHR 0xA4]"

definition emoji_check :: string where
  "emoji_check = [CHR 0xE2, CHR 0x9C, CHR 0x85]"

definition emoji_warning :: string where
  "emoji_warning = [CHR 0xE2, CHR 0x9A, CHR 0xA0, CHR 0xEF, CHR 0xB8, CHR 0x8F]"

text \<open>\<^verbatim>\<open>a || b\<close> on two strings.\<close>

definition string_or :: "string \<Rightarrow> string \<Rightarrow> string" where
  "string_or a b = (if truthy_string a then a else b)"

text \<open>The filter \<^verbatim>\<open>f => f.label || f.value\<close>.\<close>

definition filled :: "InfoField \<Rightarrow> bool" where
  "filled f = (truthy_string (f_label f) \<or> truthy_string (f_value f))"

definition summaryHeader :: "(rat \<Rightarrow> string) \<Rightarrow> TripData \<Rightarrow> string" where
  "summaryHeader toStr st =
     ''*'' @ string_or (tripName st) ''Trip'' @ ''* '' @ emoji_island @ newline @ newline
     @ emoji_people @ '' '' @ toStr (persons st) @ '' people'' @ newline @ newline"

definition summaryBasicInfo :: "TripData \<Rightarrow> string" where
  "summaryBasicInfo st =
     (let filledBasicInfo = filter filled (basicInfo st)
      in if length filledBasicInfo > 0
         then emoji_clipboard @ '' *Basic Info*'' @ newline
              @ concat (map (\<lambda>field. bullet @ '' '' @ string_or (f_label field) ''Info''
                                       @ '': '' @ f_value field @ newline) filledBasicInfo)
              @ newline
         else [])"

definition summaryAccommodation ::
  "(rat \<Rightarrow> string) \<Rightarrow> (rat \<Rightarrow> string) \<Rightarrow> TripData \<Rightarrow> string" where
  "summaryAccommodation toFixed2 toStr st =
     (if hasAccommodation st \<and> accommodationPrice st > 0
      then emoji_hotel @ '' *Accommodation*'' @ newline
           @ bullet @ '' Stay: CHF '' @ toFixed2 (accommodationPrice st)
           @ '' ('' @ toStr (accommodationNights st) @ '' ''
           @ (if accommodationNights st = 1 then ''night'' else ''nights'')
           @ '' '' @ times_sign @ '' CHF '' @ toFixed2 (pricePerNight st) @ '')'' @ newline
           @ (if truthy_string (accommodationLink st)
              then ''  _Link:_ '' @ accommodationLink st @ newline else [])
           @ newline
      else [])"

definition summaryExpense :: "(rat \<Rightarrow> string) \<Rightarrow> TripData \<Rightarrow> ExpenseItem \<Rightarrow> string" where
  "summaryExpense toFixed2 st expense =
     (let total = getExpenseTotal st expense;
          filledFields = filter filled (e_infoFields expense)
      in bullet @ '' '' @ string_or (e_name expense) ''Unnamed'' @ '': CHF '' @ toFixed2 total
         @ (if e_isPerPerson expense
            then '' (CHF '' @ toFixed2 (e_price expense) @ ''/person)'' else [])
         @ (if length filledFields > 0
            then concat (map (\<lambda>field. newline @ ''  ''
                                @ (if truthy_string (f_label field)
                                   then ''_'' @ f_label field @ '':_ '' else [])
                                @ f_value field) filledFields)
            else [])
         @ newline)"

definition summaryExpenses :: "(rat \<Rightarrow> string) \<Rightarrow> TripData \<Rightarrow> string" where
  "summaryExpenses toFixed2 st =
     (if length (expenses st) > 0 then emoji_card @ '' *Expenses*'' @ newline else [])
     @ concat (map (summaryExpense toFixed2 st) (expenses st))"

definition summaryTotals :: "(rat \<Rightarrow> string) \<Rightarrow> TripData \<Rightarrow> string" where
  "summaryTotals toFixed2 st =
     newline @ emoji_money @ '' *Total: CHF '' @ toFixed2 (totalCost st) @ ''*'' @ newline
     @ emoji_person @ '' *Per person: CHF '' @ toFixed2 (costPerPerson st) @ ''*''"

text \<open>Lines 441-445: the last thing appended to the summary.\<close>

definition summaryBudget :: "(rat \<Rightarrow> string) \<Rightarrow> TripData \<Rightarrow> string" where
  "summaryBudget toFixed2 st =
     (if budgetPerPerson st > 0 \<and> remaining st \<ge> 0
      then newline @ emoji_check @ '' Under budget by CHF '' @ toFixed2 (remaining st)
      else if budgetPerPerson st > 0
      then newline @ emoji_warning @ '' Over budget by CHF '' @ toFixed2 \<bar>remaining st\<bar>
      else [])"

text \<open>The text handed to \<^verbatim>\<open>navigator.clipboard.writeText\<close>, and the toast.\<close>

definition copyToClipboard ::
  "(rat \<Rightarrow> string) \<Rightarrow> (rat \<Rightarrow> string) \<Rightarrow> TripData \<Rightarrow> string \<times> toast" where
  "copyToClipboard toFixed2 toStr st =
     (summaryHeader toStr st @ summaryBasicInfo st @ summaryAccommodation toFixed2 toStr st
      @ summaryExpenses toFixed2 st @ summaryTotals toFixed2 st @ summaryBudget toFixed2 st,
      ToastSuccess ''Copied to clipboard'')"

text \<open>
  The summary card of the page renders its budget rows inside
  \<^verbatim>\<open>{budgetPerPerson > 0 && ( ... )}\<close> (line 931) and colours the remaining amount by
  the nested conditional of lines 946-950.
\<close>

definition showsBudgetRows :: "TripData \<Rightarrow> bool" where
  "showsBudgetRows st = (budgetPerPerson st > 0)"

datatype budget_colour = Destructive | Yellow | Emerald

definition remainingColour :: "TripData \<Rightarrow> budget_colour" where
  "remainingColour st =
     (if remaining st < 0 then Destructive
      else if remaining st < totalBudget st * (2 / 10) then Yellow
      else Emerald)"

text \<open>
  A decimal formatter for the examples: the value of \<^verbatim>\<open>toFixed(2)\<close> and of the template
  conversion on the numbers the examples use (magnitude below \<open>10\<^sup>2\<^sup>1\<close>, where
  JavaScript does not switch to exponent notation; integers for \<open>decimal\<close>).
\<close>

fun digits :: "nat \<Rightarrow> string" where
  "digits n =
     (if n < 10 then [''0123456789'' ! n]
      else digits (n div 10) @ [''0123456789'' ! (n mod 10)])"

definition decimal2 :: "rat \<Rightarrow> string" where
  "decimal2 x =
     (let n = nat \<lfloor>\<bar>x\<bar> * 100 + 1 / 2\<rfloor>;
          s = digits n;
          padded = replicate (3 - length s) (CHR ''0'') @ s
      in (if x < 0 then ''-'' else [])
         @ take (length padded - 2) padded @ ''.'' @ drop (length padded - 2) padded)"

definition decimal :: "rat \<Rightarrow> string" where
  "decimal x = (if x < 0 then ''-'' else []) @ digits (nat \<lfloor>\<bar>x\<bar>\<rfloor>)"

subsection \<open>The auto-save effect (lines 199-216)\<close>














section \<open>Predicates and examples\<close>

subsection \<open>Ranges of the numeric fields\<close>






subsection \<open>The timers of a loaded page\<close>


subsection \<open>Examples\<close>

text \<open>An id generator for the examples; it never returns the same id twice.\<close>

definition sampleUUID :: "nat \<Rightarrow> string" where
  "sampleUUID n = replicate (Suc n) (CHR ''u'')"

text \<open>A trip with an accommodation of 300 for 3 nights.\<close>

definition alpsTrip :: TripData where
  "alpsTrip =
     defaultData\<lparr>tripName := ''Alps'', hasAccommodation := True,
       accommodationPrice := 300, accommodationNights := 3\<rparr>"

text \<open>The JSON object \<^verbatim>\<open>{}\<close>.\<close>

definition emptyObject :: TripJson where
  "emptyObject =
     \<lparr>d_tripName = None, d_persons = None, d_budgetPerPerson = None,
      d_hasAccommodation = None, d_accommodationLink = None, d_accommodationPrice = None,
      d_accommodationNights = None, d_basicInfo = None, d_expenses = None\<rparr>"

text \<open>
  An expense in the legacy format, \<^verbatim>\<open>link: "http://x", notes: ""\<close>, with the given
  \<^verbatim>\<open>infoFields\<close> (absent for \<open>None\<close>), and one that has only notes.
\<close>

definition legacyExpense :: "InfoField list option \<Rightarrow> ExpenseJson" where
  "legacyExpense fs =
     \<lparr>j_id = ''e1'', j_name = ''Hotel'', j_price = 120, j_isPerPerson = False,
      j_infoFields = fs, j_link = Some ''http://x'', j_notes = Some []\<rparr>"

definition notesExpense :: ExpenseJson where
  "notesExpense =
     \<lparr>j_id = ''e2'', j_name = ''Ferry'', j_price = 15, j_isPerPerson = True,
      j_infoFields = None, j_link = None, j_notes = Some ''bring cash''\<rparr>"

text \<open>
  The scenario of the specification: four persons, a budget of 50 each, one expense of
  40 per person and one of 100 in total, no accommodation.
\<close>

definition scenarioTrip :: TripData where
  "scenarioTrip =
     defaultData\<lparr>persons := 4, budgetPerPerson := 50,
       expenses :=
         [\<lparr>e_id = ''a'', e_name = ''Ski Passes'', e_price = 40, e_isPerPerson = True,
           e_infoFields = [], e_link = None, e_notes = None\<rparr>,
          \<lparr>e_id = ''b'', e_name = ''The Villa'', e_price = 100, e_isPerPerson = False,
           e_infoFields = [], e_link = None, e_notes = None\<rparr>]\<rparr>"


section \<open>Properties\<close>

subsection \<open>Totals\<close>

lemma foldl_add_sum_list:
  "foldl (\<lambda>sum x. sum + f x) a xs = (a::rat) + sum_list (map f xs)"
  by (induction xs arbitrary: a) (simp_all add: add.assoc)

lemma expensesCost_sum_list:
  "expensesCost st = sum_list (map (getExpenseTotal st) (expenses st))"
  by (simp add: expensesCost_def foldl_add_sum_list)

text \<open>
  C1. For every trip snapshot and every expense: the contribution of an expense is its
  price times the number of persons when it is per person and its price otherwise; the
  expenses cost is the sum of the contributions of all expenses; the accommodation cost
  is the accommodation price when accommodation is enabled and 0 otherwise; the total
  cost is the sum of both; the cost per person is the total divided by the number of
  persons when that is positive, and 0 otherwise.
\<close>

theorem totals_derivation:
  "getExpenseTotal st e = (if e_isPerPerson e then e_price e * persons st else e_price e)
   \<and> expensesCost st = (\<Sum>e\<leftarrow>expenses st. getExpenseTotal st e)
   \<and> accommodationCost st = (if hasAccommodation st then accommodationPrice st else 0)
   \<and> totalCost st = expensesCost st + accommodationCost st
   \<and> costPerPerson st = (if persons st > 0 then totalCost st / persons st else 0)"
proof (intro conjI)
  show "getExpenseTotal st e = (if e_isPerPerson e then e_price e * persons st else e_price e)"
    by (simp add: getExpenseTotal_def)
  show "expensesCost st = (\<Sum>e\<leftarrow>expenses st. getExpenseTotal st e)"
    by (rule expensesCost_sum_list)
  show "accommodationCost st = (if hasAccommodation st then accommodationPrice st else 0)"
    by (simp add: accommodationCost_def)
  show "totalCost st = expensesCost st + accommodationCost st"
    by (simp add: totalCost_def)
  show "costPerPerson st = (if persons st > 0 then totalCost st / persons st else 0)"
    by (simp add: costPerPerson_def)
qed

text \<open>
  The scenario of the specification, through the theorem: the expenses cost
  \<open>40 * 4 + 100 = 260\<close>, which is the total, and 65 per person.
\<close>

theorem totals_scenario:
  "expensesCost scenarioTrip = 260 \<and> totalCost scenarioTrip = 260
   \<and> costPerPerson scenarioTrip = 65 \<and> remaining scenarioTrip = - 60"
  using totals_derivation[of scenarioTrip "hd (expenses scenarioTrip)"]
  by (simp add: scenarioTrip_def defaultData_def getExpenseTotal_def remaining_def
      totalBudget_def)

subsection \<open>Export and import\<close>

lemma migrateExpenses_exported:
  "migrateExpenses randomUUID n (map expenseJsonOf es) = (es, n)"
  by (induction es) (simp_all add: migrateExpense_def expenseJsonOf_def withInfoFields_def)

text \<open>
  What importing an exported trip gives, whatever the trip \<open>cur\<close> in memory: the exported
  trip, except that the accommodation price and nights are those of \<open>cur\<close> (the import
  never sets them) and that 0 persons become 2.
\<close>

lemma import_of_export:
  "fst (reader_onload randomUUID n (fst (exportData t)) cur) =
     t\<lparr>persons := (if persons t = 0 then 2 else persons t),
       accommodationPrice := accommodationPrice cur,
       accommodationNights := accommodationNights cur\<rparr>"
  by (simp add: reader_onload_def exportData_def jsonOf_def js_or_def truthy_string_def
      truthy_number_def truthy_boolean_def truthy_array_def migrateExpenses_exported)

text \<open>
  C2 (the code departs from the claim). The claim: importing the file produced by
  exporting a trip yields that trip field for field, whatever is in memory at the time.
  On the code, exporting \<open>alpsTrip\<close> (accommodation for 300, 3 nights) and importing
  the file into a page that holds the defaults gives a trip with accommodation price 0
  and 1 night: \<^verbatim>\<open>importData\<close> does not call \<^verbatim>\<open>setAccommodationPrice\<close> and
  \<^verbatim>\<open>setAccommodationNights\<close>, which the load effect does call.
\<close>

theorem roundtrip_loses_accommodation:
  "fst (reader_onload sampleUUID 0 (fst (exportData alpsTrip)) defaultData)
     = alpsTrip\<lparr>accommodationPrice := 0, accommodationNights := 1\<rparr>
   \<and> fst (reader_onload sampleUUID 0 (fst (exportData alpsTrip)) defaultData) \<noteq> alpsTrip"
  by (simp add: reader_onload_def exportData_def jsonOf_def js_or_def truthy_string_def
      truthy_number_def truthy_boolean_def truthy_array_def alpsTrip_def defaultData_def)

text \<open>
  The fields an import takes from the file: when one of them is missing, the state gets
  its default, and no expenses when \<^verbatim>\<open>expenses\<close> is missing.
\<close>

lemma import_missing_fields:
  "tripName (fst (reader_onload randomUUID n (Parsed (data\<lparr>d_tripName := None\<rparr>)) st)) = []
   \<and> persons (fst (reader_onload randomUUID n (Parsed (data\<lparr>d_persons := None\<rparr>)) st)) = 2
   \<and> budgetPerPerson
        (fst (reader_onload randomUUID n (Parsed (data\<lparr>d_budgetPerPerson := None\<rparr>)) st)) = 0
   \<and> hasAccommodation
        (fst (reader_onload randomUUID n (Parsed (data\<lparr>d_hasAccommodation := None\<rparr>)) st))
       = False
   \<and> accommodationLink
        (fst (reader_onload randomUUID n (Parsed (data\<lparr>d_accommodationLink := None\<rparr>)) st))
       = []
   \<and> basicInfo (fst (reader_onload randomUUID n (Parsed (data\<lparr>d_basicInfo := None\<rparr>)) st)) = []
   \<and> expenses (fst (reader_onload randomUUID n (Parsed (data\<lparr>d_expenses := None\<rparr>)) st)) = []"
  by (simp add: reader_onload_def js_or_def split_beta)

text \<open>
  C3 (the code departs from the claim). The claim: every field missing from a payload
  that parses takes its default in the resulting state, the accommodation price 0 and
  the nights 1 among them. On the code, importing \<^verbatim>\<open>{}\<close> into a page that holds
  \<open>alpsTrip\<close> leaves the accommodation price at 300 and the nights at 3; the seven
  other fields take their defaults. It is the defect of C2: the two setters are missing
  from \<^verbatim>\<open>importData\<close>.
\<close>

theorem import_keeps_accommodation:
  "fst (reader_onload sampleUUID 0 (Parsed emptyObject) alpsTrip)
     = defaultData\<lparr>accommodationPrice := 300, accommodationNights := 3\<rparr>
   \<and> accommodationPrice (fst (reader_onload sampleUUID 0 (Parsed emptyObject) alpsTrip))
       \<noteq> accommodationPrice defaultData
   \<and> accommodationNights (fst (reader_onload sampleUUID 0 (Parsed emptyObject) alpsTrip))
       \<noteq> accommodationNights defaultData"
  by (simp add: reader_onload_def js_or_def emptyObject_def alpsTrip_def defaultData_def)


text \<open>
  C10. After the import of a payload that parses, the number of persons is the payload's
  when that is a number other than 0, and the default 2 when it is absent or 0: a
  present 0 is replaced, not kept.
\<close>

theorem import_persons:
  "persons (fst (reader_onload randomUUID n (Parsed data) st)) =
     (case d_persons data of None \<Rightarrow> 2 | Some p \<Rightarrow> if p \<noteq> 0 then p else 2)
   \<and> persons (fst (reader_onload randomUUID n (Parsed (data\<lparr>d_persons := Some 0\<rparr>)) st)) = 2"
  by (simp add: reader_onload_def js_or_def truthy_number_def split_beta split: option.splits)

subsection \<open>Migration\<close>

lemma inj_sampleUUID: "inj sampleUUID"
proof (rule injI)
  fix a b
  assume "sampleUUID a = sampleUUID b"
  then have "length (sampleUUID a) = length (sampleUUID b)"
    by simp
  then show "a = b"
    by (simp add: sampleUUID_def)
qed

lemma upt_join: "n \<le> k \<Longrightarrow> k \<le> m \<Longrightarrow> [n..<k] @ [k..<m] = [n..<m]"
  by (metis le_Suc_ex upt_add_eq_append)

text \<open>The ids a migration creates are those of the counter values it passes.\<close>

lemma legacyField_ids:
  "legacyField u n lbl v = (fs, n') \<Longrightarrow> map f_id fs = map u [n..<n'] \<and> n \<le> n'"
  by (auto simp: legacyField_def split: option.splits if_splits)

lemma migrateExpense_ids:
  assumes "j_infoFields e = None" and "migrateExpense u n e = (e', n')"
  shows "map f_id (e_infoFields e') = map u [n..<n'] \<and> n \<le> n'"
proof -
  obtain ls n1 where l: "legacyField u n ''Link'' (j_link e) = (ls, n1)"
    by (cases "legacyField u n ''Link'' (j_link e)")
  obtain ns n2 where m: "legacyField u n1 ''Notes'' (j_notes e) = (ns, n2)"
    by (cases "legacyField u n1 ''Notes'' (j_notes e)")
  from assms l m have e': "e' = withInfoFields e (ls @ ns)" and n': "n' = n2"
    by (simp_all add: migrateExpense_def)
  from legacyField_ids[OF l] legacyField_ids[OF m]
  have "map f_id (ls @ ns) = map u ([n..<n1] @ [n1..<n2])" and le: "n \<le> n1" "n1 \<le> n2"
    by simp_all
  with upt_join[OF le] show ?thesis
    by (simp add: e' n' withInfoFields_def)
qed

lemma migrateExpenses_ids:
  "list_all (\<lambda>e. j_infoFields e = None) es \<Longrightarrow> migrateExpenses u n es = (es', n')
   \<Longrightarrow> concat (map (\<lambda>e. map f_id (e_infoFields e)) es') = map u [n..<n'] \<and> n \<le> n'"
proof (induction es arbitrary: n es' n')
  case Nil
  then show ?case by simp
next
  case (Cons e es)
  obtain e1 n1 where a: "migrateExpense u n e = (e1, n1)"
    by (cases "migrateExpense u n e")
  obtain es1 n2 where b: "migrateExpenses u n1 es = (es1, n2)"
    by (cases "migrateExpenses u n1 es")
  from Cons.prems(2) a b have r: "es' = e1 # es1" "n' = n2"
    by simp_all
  from Cons.prems(1) have "j_infoFields e = None" "list_all (\<lambda>e. j_infoFields e = None) es"
    by simp_all
  from migrateExpense_ids[OF this(1) a] Cons.IH[OF this(2) b]
  have "map f_id (e_infoFields e1) = map u [n..<n1]" "n \<le> n1"
       "concat (map (\<lambda>e. map f_id (e_infoFields e)) es1) = map u [n1..<n2]" "n1 \<le> n2"
    by simp_all
  with upt_join[of n n1 n2] show ?case
    unfolding r by (simp flip: map_append)
qed

lemma migrateExpenses_fresh:
  assumes "inj u" and "list_all (\<lambda>e. j_infoFields e = None) es"
  shows "distinct (concat (map (\<lambda>e. map f_id (e_infoFields e)) (fst (migrateExpenses u n es))))"
proof -
  obtain es' n' where r: "migrateExpenses u n es = (es', n')"
    by (cases "migrateExpenses u n es")
  from migrateExpenses_ids[OF assms(2) r]
  have "concat (map (\<lambda>e. map f_id (e_infoFields e)) es') = map u [n..<n']"
    by simp
  moreover from assms(1) have "distinct (map u [n..<n'])"
    by (simp add: distinct_map inj_on_def inj_def)
  ultimately show ?thesis
    by (simp add: r)
qed

lemma migrateExpense_absent:
  "j_infoFields e = None \<Longrightarrow>
   e_infoFields (fst (migrateExpense u n e)) =
     (case j_link e of
        Some l \<Rightarrow> if l \<noteq> [] then [\<lparr>f_id = u n, f_label = ''Link'', f_value = l\<rparr>] else []
      | None \<Rightarrow> [])
     @ (case j_notes e of
        Some m \<Rightarrow>
          if m \<noteq> []
          then [\<lparr>f_id = u (if (case j_link e of Some l \<Rightarrow> l \<noteq> [] | None \<Rightarrow> False)
                           then Suc n else n),
                 f_label = ''Notes'', f_value = m\<rparr>]
          else []
      | None \<Rightarrow> [])"
  by (simp add: migrateExpense_def legacyField_def withInfoFields_def truthy_string_def
      split: option.splits prod.splits)

lemma migrateExpense_present:
  "j_infoFields e = Some fs \<Longrightarrow> migrateExpense u n e = (withInfoFields e fs, n)"
  by (simp add: migrateExpense_def)

lemma migrateExpense_counter: "n \<le> snd (migrateExpense u n e)"
  by (simp add: migrateExpense_def legacyField_def split: option.splits prod.splits)

text \<open>Every element of the result is the migration of the element at its place.\<close>

lemma migrateExpenses_elementwise:
  "list_all2 (\<lambda>e e'. \<exists>k\<ge>n. e' = fst (migrateExpense u k e)) es (fst (migrateExpenses u n es))"
proof (induction es arbitrary: n)
  case Nil
  then show ?case by simp
next
  case (Cons e es)
  let ?n1 = "snd (migrateExpense u n e)"
  have le: "n \<le> ?n1"
    by (rule migrateExpense_counter)
  have "list_all2 (\<lambda>e e'. \<exists>k\<ge>?n1. e' = fst (migrateExpense u k e)) es
          (fst (migrateExpenses u ?n1 es))"
    by (rule Cons.IH)
  then have "list_all2 (\<lambda>e e'. \<exists>k\<ge>n. e' = fst (migrateExpense u k e)) es
          (fst (migrateExpenses u ?n1 es))"
    by (rule list_all2_mono) (use le in \<open>auto intro: order_trans\<close>)
  then show ?case
    by (auto simp: split_beta)
qed

lemma load_expenses:
  "expenses (fst (loadEffect u n (Some (Parsed data)))) =
     fst (migrateExpenses u n (case d_expenses data of Some es \<Rightarrow> es | None \<Rightarrow> []))"
  by (simp add: loadEffect_def getInitialData_def spreadOver_def defaultData_def split_beta
      split: option.splits)

lemma import_expenses:
  "expenses (fst (reader_onload u n (Parsed data) st)) =
     fst (migrateExpenses u n (case d_expenses data of Some es \<Rightarrow> es | None \<Rightarrow> []))"
  by (simp add: reader_onload_def js_or_def truthy_array_def split_beta split: option.splits)

text \<open>
  C4 (as stated, refuted). The claim's example has \<^verbatim>\<open>infoFields: []\<close>: an empty array is
  truthy, so \<^verbatim>\<open>expense.infoFields || [...]\<close> keeps it, and no "Link" entry is made, in
  the migration itself and on both paths that apply it.
\<close>

theorem empty_infoFields_not_migrated:
  "e_infoFields (fst (migrateExpense sampleUUID 0 (legacyExpense (Some [])))) = []
   \<and> map e_infoFields
        (expenses (fst (reader_onload sampleUUID 0
           (Parsed (emptyObject\<lparr>d_expenses := Some [legacyExpense (Some [])]\<rparr>)) defaultData)))
       = [[]]
   \<and> map e_infoFields
        (expenses (fst (loadEffect sampleUUID 0
           (Some (Parsed (emptyObject\<lparr>d_expenses := Some [legacyExpense (Some [])]\<rparr>))))))
       = [[]]"
  by (simp add: load_expenses import_expenses emptyObject_def migrateExpense_def
      legacyExpense_def withInfoFields_def)

text \<open>
  C4 (amended). During load and during import every expense goes through the migration.
  An expense whose \<^verbatim>\<open>infoFields\<close> is absent gets the entries synthesized from the legacy
  fields: one labelled "Link" with the link (only if the link is not empty), then one
  labelled "Notes" with the notes (only if the notes are not empty), each with the next
  id of the generator; when the generator never repeats an id, all ids synthesized for
  a list of such expenses are distinct. An expense whose \<^verbatim>\<open>infoFields\<close> is present, the
  empty sequence too, keeps it unchanged.
\<close>

theorem legacy_migration:
  "expenses (fst (loadEffect u n (Some (Parsed data)))) =
     fst (migrateExpenses u n (case d_expenses data of Some es \<Rightarrow> es | None \<Rightarrow> []))
   \<and> expenses (fst (reader_onload u n (Parsed data) st)) =
     fst (migrateExpenses u n (case d_expenses data of Some es \<Rightarrow> es | None \<Rightarrow> []))
   \<and> list_all2 (\<lambda>e e'. \<exists>k\<ge>n. e' = fst (migrateExpense u k e)) es
        (fst (migrateExpenses u n es))
   \<and> (j_infoFields e1 = None \<longrightarrow>
        e_infoFields (fst (migrateExpense u k e1)) =
          (case j_link e1 of
             Some l \<Rightarrow> if l \<noteq> [] then [\<lparr>f_id = u k, f_label = ''Link'', f_value = l\<rparr>] else []
           | None \<Rightarrow> [])
          @ (case j_notes e1 of
             Some m \<Rightarrow>
               if m \<noteq> []
               then [\<lparr>f_id = u (if (case j_link e1 of Some l \<Rightarrow> l \<noteq> [] | None \<Rightarrow> False)
                                then Suc k else k),
                      f_label = ''Notes'', f_value = m\<rparr>]
               else []
           | None \<Rightarrow> []))
   \<and> (j_infoFields e2 = Some fs \<longrightarrow> migrateExpense u k e2 = (withInfoFields e2 fs, k))
   \<and> (inj u \<and> list_all (\<lambda>e. j_infoFields e = None) es \<longrightarrow>
        distinct (concat (map (\<lambda>e. map f_id (e_infoFields e)) (fst (migrateExpenses u n es)))))"
  using load_expenses[of u n data] import_expenses[of u n data st]
    migrateExpenses_elementwise[of n u es] migrateExpense_absent[of e1 u k]
    migrateExpense_present[of e2 fs u k] migrateExpenses_fresh[of u es n]
  by blast

theorem legacy_migration_witness:
  "j_infoFields (legacyExpense None) = None
   \<and> e_infoFields (fst (migrateExpense sampleUUID 0 (legacyExpense None)))
       = [\<lparr>f_id = sampleUUID 0, f_label = ''Link'', f_value = ''http://x''\<rparr>]
   \<and> j_infoFields (legacyExpense (Some [])) = Some []
   \<and> migrateExpense sampleUUID 0 (legacyExpense (Some []))
       = (withInfoFields (legacyExpense (Some [])) [], 0)
   \<and> inj sampleUUID
   \<and> list_all (\<lambda>e. j_infoFields e = None) [legacyExpense None, notesExpense]
   \<and> distinct (concat (map (\<lambda>e. map f_id (e_infoFields e))
        (fst (migrateExpenses sampleUUID 0 [legacyExpense None, notesExpense]))))
   \<and> map e_infoFields (expenses (fst (reader_onload sampleUUID 0
        (Parsed (emptyObject\<lparr>d_expenses := Some [legacyExpense None, notesExpense]\<rparr>))
        defaultData)))
       = [[\<lparr>f_id = sampleUUID 0, f_label = ''Link'', f_value = ''http://x''\<rparr>],
          [\<lparr>f_id = sampleUUID 1, f_label = ''Notes'', f_value = ''bring cash''\<rparr>]]"
proof -
  let ?es = "[legacyExpense None, notesExpense]"
  let ?data = "emptyObject\<lparr>d_expenses := Some ?es\<rparr>"
  have a: "j_infoFields (legacyExpense None) = None"
    and p: "j_infoFields (legacyExpense (Some [])) = Some []"
    and l: "list_all (\<lambda>e. j_infoFields e = None) ?es"
    by (simp_all add: legacyExpense_def notesExpense_def)
  note m = legacy_migration[where u = sampleUUID and n = 0 and k = 0 and data = ?data
      and st = defaultData and es = ?es and ?e1.0 = "legacyExpense None"
      and ?e2.0 = "legacyExpense (Some [])" and fs = "[]"]
  from m a have 1: "e_infoFields (fst (migrateExpense sampleUUID 0 (legacyExpense None)))
       = [\<lparr>f_id = sampleUUID 0, f_label = ''Link'', f_value = ''http://x''\<rparr>]"
    by (simp add: legacyExpense_def)
  from m p have 2: "migrateExpense sampleUUID 0 (legacyExpense (Some []))
       = (withInfoFields (legacyExpense (Some [])) [], 0)"
    by blast
  from m l inj_sampleUUID
  have 3: "distinct (concat (map (\<lambda>e. map f_id (e_infoFields e))
        (fst (migrateExpenses sampleUUID 0 ?es))))"
    by blast
  from m have "expenses (fst (reader_onload sampleUUID 0 (Parsed ?data) defaultData)) =
     fst (migrateExpenses sampleUUID 0 (case d_expenses ?data of Some es \<Rightarrow> es | None \<Rightarrow> []))"
    by blast
  then have 4: "map e_infoFields (expenses (fst (reader_onload sampleUUID 0 (Parsed ?data)
        defaultData)))
       = [[\<lparr>f_id = sampleUUID 0, f_label = ''Link'', f_value = ''http://x''\<rparr>],
          [\<lparr>f_id = sampleUUID 1, f_label = ''Notes'', f_value = ''bring cash''\<rparr>]]"
    by (simp add: migrateExpense_def legacyField_def withInfoFields_def truthy_string_def
        legacyExpense_def notesExpense_def)
  from a p l inj_sampleUUID 1 2 3 4 show ?thesis
    by blast
qed

subsection \<open>Loading\<close>



subsection \<open>Ranges of the numeric fields\<close>











subsection \<open>The clipboard summary\<close>

lemma budget_frame_expense:
  "getExpenseTotal (st\<lparr>budgetPerPerson := b\<rparr>) e = getExpenseTotal st e"
  by (simp add: getExpenseTotal_def)

lemma budget_frame:
  "expensesCost (st\<lparr>budgetPerPerson := b\<rparr>) = expensesCost st"
  "totalCost (st\<lparr>budgetPerPerson := b\<rparr>) = totalCost st"
  "costPerPerson (st\<lparr>budgetPerPerson := b\<rparr>) = costPerPerson st"
  "pricePerNight (st\<lparr>budgetPerPerson := b\<rparr>) = pricePerNight st"
  by (simp_all add: expensesCost_def budget_frame_expense totalCost_def accommodationCost_def
      costPerPerson_def pricePerNight_def)

lemma budget_frame_summary:
  "summaryHeader toStr (st\<lparr>budgetPerPerson := b\<rparr>) = summaryHeader toStr st"
  "summaryBasicInfo (st\<lparr>budgetPerPerson := b\<rparr>) = summaryBasicInfo st"
  "summaryAccommodation toFixed2 toStr (st\<lparr>budgetPerPerson := b\<rparr>)
     = summaryAccommodation toFixed2 toStr st"
  "summaryExpense toFixed2 (st\<lparr>budgetPerPerson := b\<rparr>) e = summaryExpense toFixed2 st e"
  "summaryTotals toFixed2 (st\<lparr>budgetPerPerson := b\<rparr>) = summaryTotals toFixed2 st"
  by (simp_all add: summaryHeader_def summaryBasicInfo_def summaryAccommodation_def
      summaryExpense_def summaryTotals_def budget_frame budget_frame_expense)

lemma budget_frame_expenses:
  "summaryExpenses toFixed2 (st\<lparr>budgetPerPerson := b\<rparr>) = summaryExpenses toFixed2 st"
proof -
  have "summaryExpense toFixed2 (st\<lparr>budgetPerPerson := b\<rparr>) = summaryExpense toFixed2 st"
    by (rule ext) (rule budget_frame_summary)
  then show ?thesis
    by (simp add: summaryExpenses_def)
qed

lemma summary_without_budget:
  "fst (copyToClipboard toFixed2 toStr (st\<lparr>budgetPerPerson := 0\<rparr>)) =
     summaryHeader toStr st @ summaryBasicInfo st @ summaryAccommodation toFixed2 toStr st
     @ summaryExpenses toFixed2 st @ summaryTotals toFixed2 st"
  by (simp add: copyToClipboard_def summaryBudget_def budget_frame_summary budget_frame_expenses)


text \<open>
  C8. The clipboard text is the summary up to the per-person line followed by the budget
  status, and nothing before the status depends on the budget. The status is not empty
  exactly when the budget per person is positive; it then says "Under budget by" the
  remaining amount when that is at least 0 and "Over budget by" its absolute value when
  it is negative, the remaining amount being budget times persons minus the total cost.
  With a budget of 0 the text ends at the per-person line and the summary card shows no
  budget rows.
\<close>

theorem budget_status_line:
  "fst (copyToClipboard toFixed2 toStr st) =
     fst (copyToClipboard toFixed2 toStr (st\<lparr>budgetPerPerson := 0\<rparr>)) @ summaryBudget toFixed2 st
   \<and> (summaryBudget toFixed2 st \<noteq> [] \<longleftrightarrow> budgetPerPerson st > 0)
   \<and> (budgetPerPerson st > 0 \<and> remaining st \<ge> 0 \<longrightarrow>
        summaryBudget toFixed2 st =
          newline @ emoji_check @ '' Under budget by CHF '' @ toFixed2 (remaining st))
   \<and> (budgetPerPerson st > 0 \<and> remaining st < 0 \<longrightarrow>
        summaryBudget toFixed2 st =
          newline @ emoji_warning @ '' Over budget by CHF '' @ toFixed2 \<bar>remaining st\<bar>)
   \<and> remaining st = budgetPerPerson st * persons st - totalCost st
   \<and> showsBudgetRows st = (budgetPerPerson st > 0)
   \<and> (budgetPerPerson st = 0 \<longrightarrow>
        fst (copyToClipboard toFixed2 toStr st) =
          summaryHeader toStr st @ summaryBasicInfo st @ summaryAccommodation toFixed2 toStr st
          @ summaryExpenses toFixed2 st @ summaryTotals toFixed2 st)"
proof (intro conjI impI)
  show "fst (copyToClipboard toFixed2 toStr st) =
     fst (copyToClipboard toFixed2 toStr (st\<lparr>budgetPerPerson := 0\<rparr>)) @ summaryBudget toFixed2 st"
    unfolding summary_without_budget by (simp add: copyToClipboard_def)
  show "(summaryBudget toFixed2 st \<noteq> []) = (budgetPerPerson st > 0)"
    by (simp add: summaryBudget_def newline_def)
  show "remaining st = budgetPerPerson st * persons st - totalCost st"
    by (simp add: remaining_def totalBudget_def)
  show "showsBudgetRows st = (budgetPerPerson st > 0)"
    by (simp add: showsBudgetRows_def)
qed (simp_all add: summaryBudget_def copyToClipboard_def)


lemma digits_6000: "digits 6000 = ''6000''"
  by simp

lemma digits_14000: "digits 14000 = ''14000''"
  by simp

lemma decimal2_60: "decimal2 60 = ''60.00''"
proof -
  have "\<lfloor>\<bar>60::rat\<bar> * 100 + 1 / 2\<rfloor> = 6000"
    by (simp add: floor_eq_iff)
  then show ?thesis
    by (simp add: decimal2_def Let_def digits_6000 del: digits.simps)
qed

lemma decimal2_140: "decimal2 140 = ''140.00''"
proof -
  have "\<lfloor>\<bar>140::rat\<bar> * 100 + 1 / 2\<rfloor> = 14000"
    by (simp add: floor_eq_iff)
  then show ?thesis
    by (simp add: decimal2_def Let_def digits_14000 del: digits.simps)
qed


text \<open>
  The scenario of the specification is over budget by 60; with a budget of 100 each it
  is under budget by 140; with no budget there is no status.
\<close>

theorem budget_status_line_witness:
  "budgetPerPerson scenarioTrip > 0 \<and> remaining scenarioTrip < 0
   \<and> summaryBudget decimal2 scenarioTrip = newline @ emoji_warning @ '' Over budget by CHF 60.00''
   \<and> budgetPerPerson (scenarioTrip\<lparr>budgetPerPerson := 100\<rparr>) > 0
   \<and> remaining (scenarioTrip\<lparr>budgetPerPerson := 100\<rparr>) \<ge> 0
   \<and> summaryBudget decimal2 (scenarioTrip\<lparr>budgetPerPerson := 100\<rparr>)
       = newline @ emoji_check @ '' Under budget by CHF 140.00''
   \<and> budgetPerPerson (scenarioTrip\<lparr>budgetPerPerson := 0\<rparr>) = 0
   \<and> summaryBudget decimal2 (scenarioTrip\<lparr>budgetPerPerson := 0\<rparr>) = []"
proof -
  let ?under = "scenarioTrip\<lparr>budgetPerPerson := 100\<rparr>"
  let ?none = "scenarioTrip\<lparr>budgetPerPerson := 0\<rparr>"
  have r: "remaining scenarioTrip = - 60" "remaining ?under = 140"
    by (simp_all add: scenarioTrip_def defaultData_def remaining_def totalBudget_def totalCost_def
        expensesCost_def getExpenseTotal_def accommodationCost_def)
  have b: "budgetPerPerson scenarioTrip = 50" "budgetPerPerson ?under = 100"
    "budgetPerPerson ?none = 0"
    by (simp_all add: scenarioTrip_def)
  have over: "budgetPerPerson scenarioTrip > 0 \<and> remaining scenarioTrip < 0"
    and under: "budgetPerPerson ?under > 0 \<and> remaining ?under \<ge> 0"
    by (simp_all only: r b) simp_all
  from budget_status_line[of decimal2 decimal scenarioTrip] over
  have "summaryBudget decimal2 scenarioTrip =
          newline @ emoji_warning @ '' Over budget by CHF '' @ decimal2 \<bar>remaining scenarioTrip\<bar>"
    by blast
  then have 1: "summaryBudget decimal2 scenarioTrip =
          newline @ emoji_warning @ '' Over budget by CHF 60.00''"
    by (simp add: r decimal2_60 del: digits.simps)
  from budget_status_line[of decimal2 decimal ?under] under
  have "summaryBudget decimal2 ?under =
          newline @ emoji_check @ '' Under budget by CHF '' @ decimal2 (remaining ?under)"
    by blast
  then have 2: "summaryBudget decimal2 ?under =
          newline @ emoji_check @ '' Under budget by CHF 140.00''"
    by (simp add: r decimal2_140 del: digits.simps)
  from budget_status_line[of decimal2 decimal ?none]
  have "(summaryBudget decimal2 ?none \<noteq> []) = (budgetPerPerson ?none > 0)"
    by blast
  then have 3: "summaryBudget decimal2 ?none = []"
    by (simp only: b) simp
  from over under 1 2 3 b(3) show ?thesis
    by blast
qed

subsection \<open>The auto-save effect\<close>






















end
